theory Spec2Isabelle
  imports Main "HOL-Library.Sublist"
begin

section \<open>Python strings\<close>

text \<open>
  A Python \<open>str\<close> is modelled by the bytes of its UTF-8 encoding, as a \<open>string\<close>. Substring
  search, splitting at a slash and concatenation act on the encoding as they do on the
  code points. A string is ASCII when no byte has its top bit set (\<open>str.isascii\<close>).
\<close>

definition isascii :: "string \<Rightarrow> bool" where
  "isascii s = list_all (\<lambda>c. \<not> digit7 c) s"

text \<open>On an ASCII character \<open>str.lower\<close> maps \<open>A\<close> .. \<open>Z\<close> to \<open>a\<close> .. \<open>z\<close> and keeps the rest.\<close>

definition lower_char :: "char \<Rightarrow> char" where
  "lower_char c =
     (case map_of (zip ''ABCDEFGHIJKLMNOPQRSTUVWXYZ'' ''abcdefghijklmnopqrstuvwxyz'') c of
        None \<Rightarrow> c
      | Some l \<Rightarrow> l)"

text \<open>The operator \<open>sub in s\<close> on strings: \<open>sub\<close> occurs in \<open>s\<close> as a contiguous block.\<close>

fun str_in :: "string \<Rightarrow> string \<Rightarrow> bool" where
  "str_in sub [] = (sub = [])"
| "str_in sub (c # cs) = (prefix sub (c # cs) \<or> str_in sub cs)"

text \<open>
  The ASCII characters for which \<open>str.isspace\<close> holds: the codes 9 .. 13, 28 .. 31 and 32.
\<close>

definition isspace :: "char \<Rightarrow> bool" where
  "isspace c \<longleftrightarrow>
     c \<in> set [CHR 0x09, CHR 0x0A, CHR 0x0B, CHR 0x0C, CHR 0x0D,
              CHR 0x1C, CHR 0x1D, CHR 0x1E, CHR 0x1F, CHR '' '']"

text \<open>
  \<open>s.split(sep)\<close> for a one-character separator: the pieces between the separators,
  one more piece than there are separators (so \<open>''''.split('/')\<close> is \<open>['''']\<close>).
\<close>

fun str_split :: "char \<Rightarrow> string \<Rightarrow> string list" where
  "str_split sep [] = [[]]"
| "str_split sep (c # cs) =
     (if c = sep then [] # str_split sep cs
      else (case str_split sep cs of
              [] \<Rightarrow> [[c]]
            | w # ws \<Rightarrow> (c # w) # ws))"

text \<open>Decimal digits of a natural number, as \<open>str(n)\<close> and the \<open>{n}\<close> of an f-string give.\<close>

fun str_of_nat :: "nat \<Rightarrow> string" where
  "str_of_nat n =
     (if n < 10 then [''0123456789'' ! n]
      else str_of_nat (n div 10) @ [''0123456789'' ! (n mod 10)])"

declare str_of_nat.simps [simp del]

section \<open>Collaborators, process state and records\<close>

text \<open>
  What the program gets from outside is a parameter of the model: the response to an HTTP
  request (\<open>http_response env url\<close> is its body, \<open>None\<close> when the request raises), the
  \<open>BeautifulSoup\<close> constructor, \<open>find_all\<close> on the parsed document, \<open>find\<close> and \<open>.text\<close> on
  a tag, the sentiment pipeline (the label of its first result), the clock
  (\<open>datetime_now k\<close> is what \<open>datetime.now()\<close> returns at its \<open>k\<close>-th call in the
  process), and the interpreter's Unicode tables: what \<open>str.lower\<close> and \<open>str.strip\<close>
  return for a string that is not ASCII.
\<close>

datatype month = January | February | March | April | May | June | July
  | August | September | October | November | December

record datetime =
  year :: nat
  month :: month
  day :: nat

record ('content, 'soup, 'tag) collaborators =
  http_response :: "string \<Rightarrow> 'content option"
  BeautifulSoup :: "'content \<Rightarrow> 'soup"
  soup_find_all :: "'soup \<Rightarrow> string \<Rightarrow> 'tag list"
  tag_find :: "'tag \<Rightarrow> string option \<Rightarrow> string option \<Rightarrow> 'tag option"
  tag_text :: "'tag \<Rightarrow> string"
  sentiment_analyzer :: "string \<Rightarrow> string"
  datetime_now :: "nat \<Rightarrow> datetime"
  unicode_lower :: "string \<Rightarrow> string"
  unicode_strip :: "string \<Rightarrow> string"

text \<open>
  \<open>requests.get(url)\<close>, line 34. Before anything is sent the library raises
  (\<open>MissingSchema\<close>, \<open>InvalidSchema\<close>, \<open>InvalidURL\<close>) unless the url names the scheme
  \<open>http\<close> or \<open>https\<close> followed by \<open>://\<close> and a host; of this check the model keeps that
  the url contains \<open>://\<close>. Past the check the outcome is that of the request.
\<close>

definition requests_get ::
  "('content, 'soup, 'tag) collaborators \<Rightarrow> string \<Rightarrow> 'content option" where
  "requests_get env url = (if str_in ''://'' url then http_response env url else None)"

text \<open>
  \<open>s.lower()\<close> and \<open>s.strip()\<close>: on an ASCII string the letters \<open>A\<close> .. \<open>Z\<close> are mapped to
  \<open>a\<close> .. \<open>z\<close>, and the leading and trailing ASCII whitespace is removed; on any other
  string the result is the one of the Unicode tables.
\<close>

definition lower :: "('content, 'soup, 'tag) collaborators \<Rightarrow> string \<Rightarrow> string" where
  "lower env s = (if isascii s then map lower_char s else unicode_lower env s)"

definition strip :: "('content, 'soup, 'tag) collaborators \<Rightarrow> string \<Rightarrow> string" where
  "strip env s =
     (if isascii s then rev (dropWhile isspace (rev (dropWhile isspace s)))
      else unicode_strip env s)"

text \<open>
  The state of the running process: the module-level \<open>unique_id_counter\<close>, the number of
  clock readings taken so far, and the lines printed.
\<close>

record process =
  unique_id_counter :: int
  clock_reads :: nat
  stdout :: "string list"

definition initial_process :: process where
  "initial_process = \<lparr>unique_id_counter = 0, clock_reads = 0, stdout = []\<rparr>"

definition print :: "string \<Rightarrow> process \<Rightarrow> process" where
  "print line st = st\<lparr>stdout := stdout st @ [line]\<rparr>"

text \<open>The dictionary appended to \<open>articles\<close> (lines 65 to 74); the key \<open>'id'\<close> is \<open>article_id\<close>.\<close>

record article =
  article_id :: int
  Title :: string
  Description :: string
  Date :: string
  Source :: string
  Source_URL :: string
  Category :: string
  Sentiment :: string

datatype error = RequestException | ValueError | IndexError

datatype pyval = PyNone | PyInt int

section \<open>Keyword classification\<close>

text \<open>
  The keyword dictionary maps a category to its keywords; a Python \<open>dict\<close> iterates in
  insertion order, so it is an association list here.

  Lines 48, 49 and 75 of \<open>extract_news\<close>: the inner loop runs over \<open>keywords.items()\<close>
  in order, tests \<open>any(keyword.lower() in title_text.lower() for keyword in
  category_keywords)\<close> and leaves the loop (\<open>break\<close>) at the first category that passes.
  \<open>classify\<close> is that search; \<open>None\<close> means that the loop ran to its end.
\<close>

fun classify ::
  "('content, 'soup, 'tag) collaborators \<Rightarrow> string \<Rightarrow> (string \<times> string list) list \<Rightarrow>
   string option" where
  "classify env title_text [] = None"
| "classify env title_text ((category, category_keywords) # rest) =
     (if list_ex (\<lambda>keyword. str_in (lower env keyword) (lower env title_text))
           category_keywords
      then Some category
      else classify env title_text rest)"



section \<open>The helpers of the extractor\<close>

fun month_name :: "month \<Rightarrow> string" where
  "month_name January = ''January''"
| "month_name February = ''February''"
| "month_name March = ''March''"
| "month_name April = ''April''"
| "month_name May = ''May''"
| "month_name June = ''June''"
| "month_name July = ''July''"
| "month_name August = ''August''"
| "month_name September = ''September''"
| "month_name October = ''October''"
| "month_name November = ''November''"
| "month_name December = ''December''"

text \<open>
  \<open>strftime("%B %d, %Y")\<close>: the full month name, the day of the month as two digits, a
  comma, and the year in decimal.
\<close>

definition strftime_B_d_Y :: "datetime \<Rightarrow> string" where
  "strftime_B_d_Y d =
     month_name (month d) @ '' '' @
     (if day d < 10 then ''0'' @ str_of_nat (day d) else str_of_nat (day d)) @
     '', '' @ str_of_nat (year d)"

definition get_system_date ::
  "('content, 'soup, 'tag) collaborators \<Rightarrow> process \<Rightarrow> string \<times> process" where
  "get_system_date env st =
     (strftime_B_d_Y (datetime_now env (clock_reads st)),
      st\<lparr>clock_reads := clock_reads st + 1\<rparr>)"

definition get_sentiment :: "('content, 'soup, 'tag) collaborators \<Rightarrow> string \<Rightarrow> string" where
  "get_sentiment env text =
     (let label = sentiment_analyzer env text in
      if label = ''POSITIVE'' then ''positive''
      else if label = ''NEGATIVE'' then ''negative''
      else ''neutral'')"

text \<open>\<open>xs[i]\<close> for a non-negative \<open>i\<close>; Python raises \<open>IndexError\<close> out of range.\<close>

definition index :: "'a list \<Rightarrow> nat \<Rightarrow> 'a option" where
  "index xs i = (if i < length xs then Some (xs ! i) else None)"

text \<open>
  \<open>xs[:n]\<close>: the first \<open>n\<close> elements, and for a negative \<open>n\<close> all but the last \<open>-n\<close>.
\<close>

definition slice_to :: "'a list \<Rightarrow> int \<Rightarrow> 'a list" where
  "slice_to xs n = (if 0 \<le> n then take (nat n) xs else take (length xs - nat (- n)) xs)"

section \<open>extract_news\<close>

text \<open>
  The body of the loop over the article elements (lines 43 to 75) for one element. It
  returns \<open>Inr None\<close> where the source goes on to the next element without appending
  (\<open>continue\<close> at line 45, or the inner loop ending without a match), \<open>Inr (Some r)\<close>
  where it appends \<open>r\<close>, and \<open>Inl IndexError\<close> where \<open>url.split('/')[2]\<close> raises. The
  statements run in the source's order: the description and the clock are read before
  the url is split, the sentiment is computed and the counter incremented after.
\<close>

definition extract_article ::
  "('content, 'soup, 'tag) collaborators \<Rightarrow> string \<Rightarrow> (string \<times> string list) list \<Rightarrow>
   string option \<Rightarrow> string option \<Rightarrow> string option \<Rightarrow> 'tag \<Rightarrow> process \<Rightarrow>
   (error + article option) \<times> process" where
  "extract_article env url keywords class_name title_tag description_tag article st =
     (case tag_find env article title_tag class_name of
        None \<Rightarrow> (Inr None, st)
      | Some title_element \<Rightarrow>
          (let title_text = strip env (tag_text env title_element) in
           case classify env title_text keywords of
             None \<Rightarrow> (Inr None, st)
           | Some category \<Rightarrow>
               (let description =
                      (case tag_find env article description_tag None of
                         None \<Rightarrow> []
                       | Some description_element \<Rightarrow>
                           strip env (tag_text env description_element));
                    (date_time, st1) = get_system_date env st;
                    source_url = url
                in case index (str_split CHR ''/'' url) 2 of
                     None \<Rightarrow> (Inl IndexError, st1)
                   | Some source_name \<Rightarrow>
                       (let combined_text = title_text @ '' '' @ description;
                            sentiment = get_sentiment env combined_text;
                            st2 = st1\<lparr>unique_id_counter := unique_id_counter st1 + 1\<rparr>
                        in (Inr (Some \<lparr>article_id = unique_id_counter st2,
                                       Title = title_text,
                                       Description = description,
                                       Date = date_time,
                                       Source = source_name,
                                       Source_URL = source_url,
                                       Category = category,
                                       Sentiment = sentiment\<rparr>), st2)))))"

text \<open>The loop of lines 42 to 75; \<open>articles\<close> is the list built so far.\<close>

fun extract_articles ::
  "('content, 'soup, 'tag) collaborators \<Rightarrow> string \<Rightarrow> (string \<times> string list) list \<Rightarrow>
   string option \<Rightarrow> string option \<Rightarrow> string option \<Rightarrow> 'tag list \<Rightarrow> article list \<Rightarrow>
   process \<Rightarrow> (error + article list) \<times> process" where
  "extract_articles env url keywords class_name title_tag description_tag [] articles st =
     (Inr articles, st)"
| "extract_articles env url keywords class_name title_tag description_tag
     (article # rest) articles st =
     (case extract_article env url keywords class_name title_tag description_tag article st of
        (Inl e, st') \<Rightarrow> (Inl e, st')
      | (Inr None, st') \<Rightarrow>
          extract_articles env url keywords class_name title_tag description_tag
            rest articles st'
      | (Inr (Some r), st') \<Rightarrow>
          extract_articles env url keywords class_name title_tag description_tag
            rest (articles @ [r]) st')"

text \<open>
  \<open>extract_news\<close>, lines 14 to 77. An optional argument left at its default is \<open>None\<close>.
  The fetch and the parse come first (lines 34, 35), the check of the mandatory
  arguments second (lines 37, 38), the selection and the loop last.
\<close>

definition extract_news ::
  "('content, 'soup, 'tag) collaborators \<Rightarrow> string \<Rightarrow> (string \<times> string list) list \<Rightarrow> int \<Rightarrow>
   string option \<Rightarrow> string option \<Rightarrow> string option \<Rightarrow> string option \<Rightarrow>
   string option \<Rightarrow> string option \<Rightarrow> process \<Rightarrow> (error + article list) \<times> process" where
  "extract_news env url keywords max_articles article_elements class_name title_tag
     description_tag date_tag date_class st =
     (case requests_get env url of
        None \<Rightarrow> (Inl RequestException, st)
      | Some content \<Rightarrow>
          (let soup = BeautifulSoup env content in
           case article_elements of
             None \<Rightarrow> (Inl ValueError, st)
           | Some name \<Rightarrow>
               if class_name = None \<or> date_tag = None then (Inl ValueError, st)
               else extract_articles env url keywords class_name title_tag description_tag
                      (slice_to (soup_find_all env soup name) max_articles) [] st))"

section \<open>save_to_mongo\<close>

text \<open>
  The collection \<open>news\<close> holds the documents in insertion order; \<open>calls\<close> records the
  operations performed on it. The three operations the program uses:
  \<open>find({'id': {'$in': ids}})\<close>, \<open>insert_many\<close>, and
  \<open>find_one({}, sort=[("id", DESCENDING)])\<close>. The store is taken to be reachable.
\<close>

datatype mongo_call = Find_id_in "int list" | Insert_many "article list" | Find_one_sort_id_desc

record mongo =
  documents :: "article list"
  calls :: "mongo_call list"

definition find_id_in :: "int list \<Rightarrow> mongo \<Rightarrow> article list \<times> mongo" where
  "find_id_in ids coll =
     (filter (\<lambda>doc. article_id doc \<in> set ids) (documents coll),
      coll\<lparr>calls := calls coll @ [Find_id_in ids]\<rparr>)"

definition insert_many :: "article list \<Rightarrow> mongo \<Rightarrow> mongo" where
  "insert_many docs coll =
     coll\<lparr>documents := documents coll @ docs, calls := calls coll @ [Insert_many docs]\<rparr>"

fun max_id_doc :: "article list \<Rightarrow> article option" where
  "max_id_doc [] = None"
| "max_id_doc (doc # docs) =
     (case max_id_doc docs of
        None \<Rightarrow> Some doc
      | Some best \<Rightarrow> if article_id best \<le> article_id doc then Some doc else Some best)"

definition find_one_sort_id_desc :: "mongo \<Rightarrow> article option \<times> mongo" where
  "find_one_sort_id_desc coll =
     (max_id_doc (documents coll), coll\<lparr>calls := calls coll @ [Find_one_sort_id_desc]\<rparr>)"

text \<open>
  Lines 120 and 123: the ids of the documents found, and the articles of the batch whose
  id is not among them.
\<close>

definition existing_ids :: "article list \<Rightarrow> mongo \<Rightarrow> int set" where
  "existing_ids data coll = set (map article_id (fst (find_id_in (map article_id data) coll)))"

definition new_articles :: "article list \<Rightarrow> mongo \<Rightarrow> article list" where
  "new_articles data coll = filter (\<lambda>article. article_id article \<notin> existing_ids data coll) data"

text \<open>
  \<open>save_to_mongo\<close>, lines 108 to 136. The function has no \<open>return\<close> statement, so the
  value the caller gets is \<open>None\<close>.
\<close>

definition save_to_mongo :: "article list \<Rightarrow> mongo \<Rightarrow> process \<Rightarrow> pyval \<times> mongo \<times> process" where
  "save_to_mongo data coll st =
     (let coll1 = snd (find_id_in (map article_id data) coll);
          new = new_articles data coll;
          (coll2, st1) =
            (if new \<noteq> []
             then (insert_many new coll1,
                   print (''Inserted '' @ str_of_nat (length new) @
                          '' new articles into MongoDB.'') st)
             else (coll1,
                   print ''No new articles to insert. All articles were already present.'' st));
          (top, coll3) = find_one_sort_id_desc coll2;
          st2 = (case top of
                   Some doc \<Rightarrow> st1\<lparr>unique_id_counter := article_id doc\<rparr>
                 | None \<Rightarrow> st1\<lparr>unique_id_counter := 0\<rparr>)
      in (PyNone, coll3, st2))"

section \<open>The main block\<close>

record site =
  site_url :: string
  site_article_elements :: string
  site_class_name :: string
  site_title_tag :: string
  site_description_tag :: string
  site_date_tag :: string
  site_date_class :: string

definition main_keywords :: "(string \<times> string list) list" where
  "main_keywords =
     [(''BTC'', [''BTC'', ''Bitcoin'', ''Bitcoin Core'', ''Digital Gold'', ''Cryptocurrency'']),
      (''ETH'', [''ETH'', ''Ethereum'', ''Smart Contracts'', ''Decentralized Finance'']),
      (''SOL'', [''SOL'', ''Solana'', ''Web3'', ''Scalability'']),
      (''BNB'', [''BNB'', ''Binance Coin'', ''Binance Smart Chain'', ''DeFi'']),
      (''DOGE'', [''DOGE'', ''Dogecoin'', ''Meme Coin'', ''Shiba Inu''])]"

definition main_urls :: "site list" where
  "main_urls =
     [\<lparr>site_url = ''https://www.newsbtc.com/news/'', site_article_elements = ''article'',
       site_class_name = ''block-article__title'', site_title_tag = ''h4'',
       site_description_tag = ''p'', site_date_tag = ''span'',
       site_date_class = ''block-article__author''\<rparr>,
      \<lparr>site_url = ''https://cryptopotato.com/crypto-news/'', site_article_elements = ''article'',
       site_class_name = ''rpwe-title'', site_title_tag = ''h3'',
       site_description_tag = ''p'', site_date_tag = ''time'',
       site_date_class = ''entry-date''\<rparr>,
      \<lparr>site_url = ''https://cryptobriefing.com/news/'', site_article_elements = ''section'',
       site_class_name = ''main-news-title'', site_title_tag = ''h2'',
       site_description_tag = ''p'', site_date_tag = ''time'',
       site_date_class = ''entry-date''\<rparr>]"

text \<open>
  The loop of lines 154 to 160; \<open>max_articles\<close> keeps its default 100. An exception of
  \<open>extract_news\<close> is not caught, so it ends the program.
\<close>

fun extract_sites ::
  "('content, 'soup, 'tag) collaborators \<Rightarrow> (string \<times> string list) list \<Rightarrow> site list \<Rightarrow>
   article list \<Rightarrow> process \<Rightarrow> (error + article list) \<times> process" where
  "extract_sites env keywords [] all_articles st = (Inr all_articles, st)"
| "extract_sites env keywords (entry # rest) all_articles st =
     (case extract_news env (site_url entry) keywords 100
             (Some (site_article_elements entry)) (Some (site_class_name entry))
             (Some (site_title_tag entry)) (Some (site_description_tag entry))
             (Some (site_date_tag entry)) (Some (site_date_class entry)) st of
        (Inl e, st') \<Rightarrow> (Inl e, st')
      | (Inr extracted_articles, st') \<Rightarrow>
          extract_sites env keywords rest (all_articles @ extracted_articles)
            (print (''Extracted '' @ str_of_nat (length extracted_articles) @
                    '' articles from '' @ site_url entry @ ''.'') st'))"

text \<open>
  One run of the program against the collection \<open>coll\<close>: loading the module sets
  \<open>unique_id_counter\<close> to 0 (line 12), the sites are extracted with the keywords and the
  site list given, and the batch is saved (lines 163, 164).
\<close>

definition run ::
  "('content, 'soup, 'tag) collaborators \<Rightarrow> (string \<times> string list) list \<Rightarrow> site list \<Rightarrow>
   mongo \<Rightarrow> (error + unit) \<times> mongo \<times> process" where
  "run env keywords urls coll =
     (case extract_sites env keywords urls [] initial_process of
        (Inl e, st) \<Rightarrow> (Inl e, coll, st)
      | (Inr all_articles, st) \<Rightarrow>
          (let (r, coll', st') = save_to_mongo all_articles coll st
           in (Inr (), coll',
               print (''Saved '' @ str_of_nat (length all_articles) @
                      '' articles to MongoDB.'') st')))"

definition main ::
  "('content, 'soup, 'tag) collaborators \<Rightarrow> mongo \<Rightarrow> (error + unit) \<times> mongo \<times> process" where
  "main env coll = run env main_keywords main_urls coll"

section \<open>A small page for the examples\<close>

text \<open>
  An in-memory stand-in for the libraries: a page is a list of elements, \<open>find_all\<close>
  selects the top-level elements by name, \<open>find\<close> returns the first child with the given
  name and class (an argument \<open>None\<close> matches anything), every text is scored
  \<open>POSITIVE\<close>, the clock stands at 7 March 2024, and the Unicode tables are not
  consulted by the examples, whose strings are ASCII.
\<close>

datatype elem = Elem (elem_name: string) (elem_class: string) (elem_text: string)
  (elem_children: "elem list")

definition page_env :: "elem list \<Rightarrow> (elem list, elem list, elem) collaborators" where
  "page_env page =
     \<lparr>http_response = (\<lambda>url. Some page),
      BeautifulSoup = (\<lambda>content. content),
      soup_find_all = (\<lambda>soup name. filter (\<lambda>e. elem_name e = name) soup),
      tag_find = (\<lambda>e name cls.
         List.find (\<lambda>k. (name = None \<or> name = Some (elem_name k)) \<and>
                         (cls = None \<or> cls = Some (elem_class k))) (elem_children e)),
      tag_text = elem_text,
      sentiment_analyzer = (\<lambda>text. ''POSITIVE''),
      datetime_now = (\<lambda>k. \<lparr>year = 2024, month = March, day = 7\<rparr>),
      unicode_lower = (\<lambda>s. s),
      unicode_strip = (\<lambda>s. s)\<rparr>"

definition offline_env :: "(elem list, elem list, elem) collaborators" where
  "offline_env = (page_env [])\<lparr>http_response := (\<lambda>url. None)\<rparr>"

text \<open>
  The page of the end-to-end scenario: an article titled "Bitcoin hits new high" with the
  description "Analysts react", and one titled "Local weather update".
\<close>

definition scenario_page :: "elem list" where
  "scenario_page =
     [Elem ''article'' [] []
        [Elem ''h4'' ''title'' ''  Bitcoin hits new high '' [],
         Elem ''p'' [] ''Analysts react'' []],
      Elem ''article'' [] []
        [Elem ''h4'' ''title'' ''Local weather update'' []]]"

text \<open>A page with one article that has a title and no description.\<close>

definition headline_page :: "elem list" where
  "headline_page =
     [Elem ''article'' [] [] [Elem ''h4'' ''title'' ''Bitcoin hits new high'' []]]"

text \<open>A record and an empty collection for the examples of \<open>save_to_mongo\<close>.\<close>

definition bitcoin_article :: article where
  "bitcoin_article =
     \<lparr>article_id = 1, Title = ''Bitcoin hits new high'', Description = ''Analysts react'',
      Date = ''March 07, 2024'', Source = ''www.newsbtc.com'',
      Source_URL = ''https://www.newsbtc.com/news/'', Category = ''BTC'',
      Sentiment = ''positive''\<rparr>"

definition empty_news :: mongo where
  "empty_news = \<lparr>documents = [], calls = []\<rparr>"

text \<open>
  The page fetched on two days: one article each, with different titles. Of the three
  sites of the main block only the first has selectors that match it.
\<close>

definition first_day_page :: "elem list" where
  "first_day_page =
     [Elem ''article'' [] []
        [Elem ''h4'' ''block-article__title'' ''Bitcoin hits new high'' [],
         Elem ''p'' [] ''Analysts react'' []]]"

definition second_day_page :: "elem list" where
  "second_day_page =
     [Elem ''article'' [] []
        [Elem ''h4'' ''block-article__title'' ''Ethereum upgrade goes live'' [],
         Elem ''p'' [] ''Developers confirm'' []]]"

section \<open>Properties of the string operations\<close>

lemma str_in_sublist: "str_in sub s = sublist sub s"
  by (induction s) (simp_all add: sublist_Cons_right)

lemma length_str_split: "length (str_split sep s) = Suc (count_list s sep)"
  by (induction s) (auto split: list.splits)

section \<open>Evaluating the examples\<close>

lemma scenario_extract:
  "extract_news (page_env scenario_page) ''https://www.newsbtc.com/news/''
     [(''BTC'', [''Bitcoin''])] 100 (Some ''article'') (Some ''title'') (Some ''h4'') (Some ''p'')
     (Some ''span'') None initial_process =
   (Inr [\<lparr>article_id = 1, Title = ''Bitcoin hits new high'',
          Description = ''Analysts react'', Date = ''March 07, 2024'',
          Source = ''www.newsbtc.com'',
          Source_URL = ''https://www.newsbtc.com/news/'',
          Category = ''BTC'', Sentiment = ''positive''\<rparr>],
    \<lparr>unique_id_counter = 1, clock_reads = 1, stdout = []\<rparr>)"
  by code_simp

section \<open>The loop of extract_news\<close>

lemma extract_article_no_title:
  "tag_find env article title_tag class_name = None \<Longrightarrow>
   extract_article env url kw class_name title_tag description_tag article st = (Inr None, st)"
  by (simp add: extract_article_def)

lemma extract_article_no_category:
  "tag_find env article title_tag class_name = Some title_element \<Longrightarrow>
   classify env (strip env (tag_text env title_element)) kw = None \<Longrightarrow>
   extract_article env url kw class_name title_tag description_tag article st = (Inr None, st)"
  by (simp add: extract_article_def)

lemma extract_article_index_error:
  "tag_find env article title_tag class_name = Some title_element \<Longrightarrow>
   classify env (strip env (tag_text env title_element)) kw = Some category \<Longrightarrow>
   \<not> 2 < length (str_split CHR ''/'' url) \<Longrightarrow>
   extract_article env url kw class_name title_tag description_tag article st =
     (Inl IndexError, st\<lparr>clock_reads := clock_reads st + 1\<rparr>)"
  by (simp add: extract_article_def get_system_date_def index_def)

lemma extract_article_record:
  "tag_find env article title_tag class_name = Some title_element \<Longrightarrow>
   classify env (strip env (tag_text env title_element)) kw = Some category \<Longrightarrow>
   2 < length (str_split CHR ''/'' url) \<Longrightarrow>
   extract_article env url kw class_name title_tag description_tag article st =
     (Inr (Some \<lparr>article_id = unique_id_counter st + 1,
                 Title = strip env (tag_text env title_element),
                 Description =
                   (case tag_find env article description_tag None of
                      None \<Rightarrow> []
                    | Some description_element \<Rightarrow> strip env (tag_text env description_element)),
                 Date = strftime_B_d_Y (datetime_now env (clock_reads st)),
                 Source = str_split CHR ''/'' url ! 2,
                 Source_URL = url,
                 Category = category,
                 Sentiment = get_sentiment env (strip env (tag_text env title_element) @ '' '' @
                   (case tag_find env article description_tag None of
                      None \<Rightarrow> []
                    | Some description_element \<Rightarrow> strip env (tag_text env description_element)))\<rparr>),
      st\<lparr>clock_reads := clock_reads st + 1, unique_id_counter := unique_id_counter st + 1\<rparr>)"
  by (simp add: extract_article_def get_system_date_def index_def Let_def)

text \<open>The four outcomes of the loop body, by cases.\<close>

lemma extract_article_cases:
  obtains
    (skip) "extract_article env url kw class_name title_tag description_tag article st =
              (Inr None, st)"
  | (fail) "extract_article env url kw class_name title_tag description_tag article st =
              (Inl IndexError, st\<lparr>clock_reads := clock_reads st + 1\<rparr>)"
           "\<not> 2 < length (str_split CHR ''/'' url)"
  | (emit) r where
      "extract_article env url kw class_name title_tag description_tag article st =
         (Inr (Some r),
          st\<lparr>clock_reads := clock_reads st + 1, unique_id_counter := unique_id_counter st + 1\<rparr>)"
      "article_id r = unique_id_counter st + 1"
      "Date r = strftime_B_d_Y (datetime_now env (clock_reads st))"
      "Source r = str_split CHR ''/'' url ! 2"
      "Source_URL r = url"
      "2 < length (str_split CHR ''/'' url)"
proof (cases "tag_find env article title_tag class_name")
  case None
  then show ?thesis using skip extract_article_no_title by metis
next
  case (Some title_element)
  show ?thesis
  proof (cases "classify env (strip env (tag_text env title_element)) kw")
    case None
    with Some show ?thesis using skip extract_article_no_category by metis
  next
    case (Some category)
    note cat = this
    show ?thesis
    proof (cases "2 < length (str_split CHR ''/'' url)")
      case True
      show ?thesis
        by (rule emit [OF extract_article_record [OF \<open>tag_find env article title_tag class_name = Some title_element\<close> cat True]])
           (simp_all add: True)
    next
      case False
      show ?thesis
        by (rule fail [OF extract_article_index_error [OF \<open>tag_find env article title_tag class_name = Some title_element\<close> cat False] False])
    qed
  qed
qed


lemma extract_articles_Inr:
  "extract_articles env url kw class_name title_tag description_tag frags acc st = (Inr arts, st') \<Longrightarrow>
   \<exists>recs. arts = acc @ recs \<and>
     unique_id_counter st' = unique_id_counter st + int (length recs) \<and>
     clock_reads st' = clock_reads st + length recs \<and>
     stdout st' = stdout st \<and>
     map article_id recs = map (\<lambda>i. unique_id_counter st + 1 + int i) [0..<length recs] \<and>
     map Date recs =
       map (\<lambda>i. strftime_B_d_Y (datetime_now env (clock_reads st + i))) [0..<length recs] \<and>
     (\<forall>r \<in> set recs. Source r = str_split CHR ''/'' url ! 2 \<and> Source_URL r = url) \<and>
     (recs \<noteq> [] \<longrightarrow> 2 < length (str_split CHR ''/'' url))"
proof (induction frags arbitrary: acc st)
  case Nil
  then show ?case by simp
next
  case (Cons article rest)
  show ?case
  proof (cases rule: extract_article_cases
      [of env url kw class_name title_tag description_tag article st])
    case skip
    with Cons.prems have
      "extract_articles env url kw class_name title_tag description_tag rest acc st = (Inr arts, st')"
      by simp
    from Cons.IH [OF this] show ?thesis .
  next
    case fail
    with Cons.prems show ?thesis by simp
  next
    case (emit r)
    let ?st1 = "st\<lparr>clock_reads := clock_reads st + 1,
                    unique_id_counter := unique_id_counter st + 1\<rparr>"
    from emit(1) Cons.prems have
      "extract_articles env url kw class_name title_tag description_tag rest (acc @ [r]) ?st1 =
         (Inr arts, st')"
      by simp
    from Cons.IH [OF this] obtain recs where
      arts: "arts = (acc @ [r]) @ recs" and
      cnt: "unique_id_counter st' = unique_id_counter ?st1 + int (length recs)" and
      clk: "clock_reads st' = clock_reads ?st1 + length recs" and
      out: "stdout st' = stdout ?st1" and
      ids: "map article_id recs =
              map (\<lambda>i. unique_id_counter ?st1 + 1 + int i) [0..<length recs]" and
      dates: "map Date recs =
              map (\<lambda>i. strftime_B_d_Y (datetime_now env (clock_reads ?st1 + i))) [0..<length recs]" and
      src: "\<forall>r \<in> set recs. Source r = str_split CHR ''/'' url ! 2 \<and> Source_URL r = url"
      by blast
    have 1: "arts = acc @ (r # recs)" using arts by simp
    have 2: "unique_id_counter st' = unique_id_counter st + int (length (r # recs))"
      using cnt by simp
    have 3: "clock_reads st' = clock_reads st + length (r # recs)"
      using clk by simp
    have 4: "stdout st' = stdout st" using out by simp
    have 5: "map article_id (r # recs) =
               map (\<lambda>i. unique_id_counter st + 1 + int i) [0..<length (r # recs)]"
      using ids emit(2) by (simp add: map_upt_Suc del: upt_Suc add.commute add.left_commute)
    have 6: "map Date (r # recs) =
               map (\<lambda>i. strftime_B_d_Y (datetime_now env (clock_reads st + i)))
                 [0..<length (r # recs)]"
      using dates emit(3) by (simp add: map_upt_Suc del: upt_Suc)
    have 7: "\<forall>x \<in> set (r # recs). Source x = str_split CHR ''/'' url ! 2 \<and> Source_URL x = url"
      using src emit(4,5) by simp
    have 8: "r # recs \<noteq> [] \<longrightarrow> 2 < length (str_split CHR ''/'' url)"
      using emit(6) by simp
    from 1 2 3 4 5 6 7 8 show ?thesis by blast
  qed
qed

lemma extract_articles_Inl:
  "extract_articles env url kw class_name title_tag description_tag frags acc st = (Inl e, st') \<Longrightarrow>
   e = IndexError \<and> \<not> 2 < length (str_split CHR ''/'' url) \<and>
   st' = st\<lparr>clock_reads := clock_reads st + 1\<rparr>"
proof (induction frags arbitrary: acc st)
  case Nil
  then show ?case by simp
next
  case (Cons article rest)
  show ?case
  proof (cases rule: extract_article_cases
      [of env url kw class_name title_tag description_tag article st])
    case skip
    with Cons.prems have
      "extract_articles env url kw class_name title_tag description_tag rest acc st = (Inl e, st')"
      by simp
    from Cons.IH [OF this] show ?thesis .
  next
    case fail
    with Cons.prems show ?thesis by auto
  next
    case (emit r)
    with Cons.prems have
      "extract_articles env url kw class_name title_tag description_tag rest (acc @ [r])
         (st\<lparr>clock_reads := clock_reads st + 1,
              unique_id_counter := unique_id_counter st + 1\<rparr>) = (Inl e, st')"
      by simp
    from Cons.IH [OF this] emit(6) show ?thesis by simp
  qed
qed

lemma extract_articles_total:
  "2 < length (str_split CHR ''/'' url) \<Longrightarrow>
   \<exists>arts st'. extract_articles env url kw class_name title_tag description_tag frags acc st =
     (Inr arts, st')"
proof -
  assume ok: "2 < length (str_split CHR ''/'' url)"
  obtain res st' where
    r: "extract_articles env url kw class_name title_tag description_tag frags acc st = (res, st')"
    by (cases "extract_articles env url kw class_name title_tag description_tag frags acc st")
  show ?thesis
  proof (cases res)
    case (Inl e)
    with r extract_articles_Inl [of env url kw class_name title_tag description_tag frags acc st e st'] ok
    show ?thesis by simp
  next
    case (Inr arts)
    with r show ?thesis by blast
  qed
qed

lemma extract_articles_append:
  "extract_articles env url kw class_name title_tag description_tag (xs @ ys) acc st =
     (case extract_articles env url kw class_name title_tag description_tag xs acc st of
        (Inl e, st') \<Rightarrow> (Inl e, st')
      | (Inr arts, st') \<Rightarrow>
          extract_articles env url kw class_name title_tag description_tag ys arts st')"
proof (induction xs arbitrary: acc st)
  case Nil
  then show ?case by simp
next
  case (Cons article rest)
  show ?case
    by (cases rule: extract_article_cases
          [of env url kw class_name title_tag description_tag article st])
       (simp_all add: Cons.IH)
qed

section \<open>The outcomes of extract_news\<close>

lemma extract_news_fetch_failed:
  "requests_get env url = None \<Longrightarrow>
   extract_news env url kw max_articles article_elements class_name title_tag description_tag
     date_tag date_class st = (Inl RequestException, st)"
  by (simp add: extract_news_def)

lemma extract_news_unset:
  "requests_get env url = Some content \<Longrightarrow>
   article_elements = None \<or> class_name = None \<or> date_tag = None \<Longrightarrow>
   extract_news env url kw max_articles article_elements class_name title_tag description_tag
     date_tag date_class st = (Inl ValueError, st)"
  by (auto simp: extract_news_def split: option.splits)

lemma extract_news_loop:
  "requests_get env url = Some content \<Longrightarrow>
   extract_news env url kw max_articles (Some name) (Some cn) title_tag description_tag
     (Some dt) date_class st =
   extract_articles env url kw (Some cn) title_tag description_tag
     (slice_to (soup_find_all env (BeautifulSoup env content) name) max_articles) [] st"
  by (simp add: extract_news_def)

text \<open>Every outcome of \<open>extract_news\<close> is one of these four.\<close>

lemma extract_news_cases:
  obtains
    (fetch) "requests_get env url = None"
      "extract_news env url kw max_articles article_elements class_name title_tag
         description_tag date_tag date_class st = (Inl RequestException, st)"
  | (unset) content where "requests_get env url = Some content"
      "article_elements = None \<or> class_name = None \<or> date_tag = None"
      "extract_news env url kw max_articles article_elements class_name title_tag
         description_tag date_tag date_class st = (Inl ValueError, st)"
  | (loop) content name cn dt where "requests_get env url = Some content"
      "article_elements = Some name" "class_name = Some cn" "date_tag = Some dt"
      "extract_news env url kw max_articles article_elements class_name title_tag
         description_tag date_tag date_class st =
       extract_articles env url kw class_name title_tag description_tag
         (slice_to (soup_find_all env (BeautifulSoup env content) name) max_articles) [] st"
proof (cases "requests_get env url")
  case None
  then show ?thesis using fetch extract_news_fetch_failed by metis
next
  case (Some content)
  show ?thesis
  proof (cases "article_elements = None \<or> class_name = None \<or> date_tag = None")
    case True
    show ?thesis by (rule unset [OF Some True extract_news_unset [OF Some True]])
  next
    case False
    then obtain name cn dt where
      s: "article_elements = Some name" "class_name = Some cn" "date_tag = Some dt"
      by auto
    show ?thesis
      by (rule loop [OF Some s]) (simp add: s extract_news_loop [OF Some])
  qed
qed

lemma extract_news_Inr:
  assumes "extract_news env url kw max_articles article_elements class_name title_tag
     description_tag date_tag date_class st = (Inr arts, st')"
  shows "unique_id_counter st' = unique_id_counter st + int (length arts) \<and>
     clock_reads st' = clock_reads st + length arts \<and>
     stdout st' = stdout st \<and>
     map article_id arts = map (\<lambda>i. unique_id_counter st + 1 + int i) [0..<length arts] \<and>
     map Date arts =
       map (\<lambda>i. strftime_B_d_Y (datetime_now env (clock_reads st + i))) [0..<length arts] \<and>
     (\<forall>r \<in> set arts. Source r = str_split CHR ''/'' url ! 2 \<and> Source_URL r = url) \<and>
     (arts \<noteq> [] \<longrightarrow> 2 < length (str_split CHR ''/'' url))"
proof (cases rule: extract_news_cases [of env url kw max_articles article_elements class_name
      title_tag description_tag date_tag date_class st])
  case fetch
  with assms show ?thesis by simp
next
  case (unset content)
  with assms show ?thesis by simp
next
  case (loop content name cn dt)
  with assms have "extract_articles env url kw class_name title_tag description_tag
         (slice_to (soup_find_all env (BeautifulSoup env content) name) max_articles) [] st =
         (Inr arts, st')" by simp
  from extract_articles_Inr [OF this] show ?thesis by simp
qed

lemma extract_news_Inl:
  assumes "extract_news env url kw max_articles article_elements class_name title_tag
     description_tag date_tag date_class st = (Inl e, st')"
  shows "unique_id_counter st' = unique_id_counter st \<and>
    (e = RequestException \<longleftrightarrow> requests_get env url = None) \<and>
    (e = ValueError \<longleftrightarrow> requests_get env url \<noteq> None \<and>
       (article_elements = None \<or> class_name = None \<or> date_tag = None))"
proof (cases rule: extract_news_cases [of env url kw max_articles article_elements class_name
      title_tag description_tag date_tag date_class st])
  case fetch
  with assms show ?thesis by simp
next
  case (unset content)
  with assms show ?thesis by auto
next
  case (loop content name cn dt)
  with assms have "extract_articles env url kw class_name title_tag description_tag
         (slice_to (soup_find_all env (BeautifulSoup env content) name) max_articles) [] st =
         (Inl e, st')" by simp
  from extract_articles_Inl [OF this] loop(1-4) show ?thesis by simp
qed

section \<open>The keyword classifier\<close>












section \<open>Errors of extract_news\<close>

text \<open>
  Claim C5, as amended. \<open>extract_news\<close> ends with \<open>ValueError\<close> (the configuration error)
  if and only if the fetch has succeeded and one of \<open>article_elements\<close>, \<open>class_name\<close>,
  \<open>date_tag\<close> is \<open>None\<close>. In particular no such error is raised when all three are
  given, and none when the fetch fails.
\<close>

theorem extract_news_ValueError_iff:
  "fst (extract_news env url kw max_articles article_elements class_name title_tag
          description_tag date_tag date_class st) = Inl ValueError \<longleftrightarrow>
   requests_get env url \<noteq> None \<and>
   (article_elements = None \<or> class_name = None \<or> date_tag = None)"
proof (cases "extract_news env url kw max_articles article_elements class_name title_tag
          description_tag date_tag date_class st")
  case (Pair res st')
  show ?thesis
  proof (cases res)
    case (Inl e)
    with Pair extract_news_Inl [of env url kw max_articles article_elements class_name title_tag
          description_tag date_tag date_class st e st']
    show ?thesis by simp
  next
    case (Inr arts)
    have "\<not> (requests_get env url \<noteq> None \<and>
       (article_elements = None \<or> class_name = None \<or> date_tag = None))"
    proof
      assume a: "requests_get env url \<noteq> None \<and>
       (article_elements = None \<or> class_name = None \<or> date_tag = None)"
      then obtain content where c: "requests_get env url = Some content" by auto
      from extract_news_unset [OF c conjunct2 [OF a]] Pair Inr show False by simp
    qed
    with Pair Inr show ?thesis by simp
  qed
qed

theorem extract_news_ValueError_iff_witness:
  "fst (extract_news (page_env scenario_page) ''https://www.newsbtc.com/news/''
          [(''BTC'', [''Bitcoin''])] 100 (Some ''article'') None (Some ''h4'') (Some ''p'')
          (Some ''span'') None initial_process) = Inl ValueError"
  by (rule extract_news_ValueError_iff [THEN iffD2]) (simp add: page_env_def requests_get_def)

text \<open>
  With every mandatory argument unset and the site unreachable, the call ends with the
  exception of the fetch, not with \<open>ValueError\<close>.
\<close>

theorem extract_news_ValueError_counterexample:
  "fst (extract_news offline_env ''https://www.newsbtc.com/news/''
          [(''BTC'', [''Bitcoin''])] 100 None None None None None None initial_process) =
     Inl RequestException"
  by (simp add: extract_news_def requests_get_def offline_env_def page_env_def)

text \<open>
  Claim C10. The fetch and the parse come before the check of the mandatory arguments:
  in a call that misses one of them, \<open>ValueError\<close> is raised only once the fetch has
  succeeded, and when the fetch fails its exception is what the caller gets. The process
  state is as before the call in both cases.
\<close>

theorem extract_news_fetch_precedes_check:
  assumes "article_elements = None \<or> class_name = None \<or> date_tag = None"
  shows "(requests_get env url = None \<longrightarrow>
            extract_news env url kw max_articles article_elements class_name title_tag
              description_tag date_tag date_class st = (Inl RequestException, st)) \<and>
         (requests_get env url \<noteq> None \<longrightarrow>
            extract_news env url kw max_articles article_elements class_name title_tag
              description_tag date_tag date_class st = (Inl ValueError, st))"
proof (intro conjI impI)
  assume "requests_get env url = None"
  then show "extract_news env url kw max_articles article_elements class_name title_tag
              description_tag date_tag date_class st = (Inl RequestException, st)"
    by (rule extract_news_fetch_failed)
next
  assume "requests_get env url \<noteq> None"
  then obtain content where "requests_get env url = Some content" by auto
  from extract_news_unset [OF this assms]
  show "extract_news env url kw max_articles article_elements class_name title_tag
              description_tag date_tag date_class st = (Inl ValueError, st)" .
qed

theorem extract_news_fetch_precedes_check_witness:
  "extract_news offline_env ''https://www.newsbtc.com/news/'' [(''BTC'', [''Bitcoin''])] 100
     (Some ''article'') (Some ''title'') (Some ''h4'') (Some ''p'') None None initial_process =
     (Inl RequestException, initial_process) \<and>
   extract_news (page_env scenario_page) ''https://www.newsbtc.com/news/''
     [(''BTC'', [''Bitcoin''])] 100
     (Some ''article'') (Some ''title'') (Some ''h4'') (Some ''p'') None None initial_process =
     (Inl ValueError, initial_process)"
  using
    extract_news_fetch_precedes_check [of "Some ''article''" "Some ''title''" None offline_env
      "''https://www.newsbtc.com/news/''" "[(''BTC'', [''Bitcoin''])]" 100 "Some ''h4''"
      "Some ''p''" None initial_process]
    extract_news_fetch_precedes_check [of "Some ''article''" "Some ''title''" None
      "page_env scenario_page"
      "''https://www.newsbtc.com/news/''" "[(''BTC'', [''Bitcoin''])]" 100 "Some ''h4''"
      "Some ''p''" None initial_process]
  by (simp add: requests_get_def offline_env_def page_env_def)

section \<open>The id counter\<close>

text \<open>
  Claim C6. An article element without a title element of the given tag and class, and
  one whose title matches no category, are passed over: the loop goes on with the list
  of records and the process state as they were. A call that returns has advanced
  \<open>unique_id_counter\<close> by the number of records returned, whose ids are the consecutive
  numbers after the old counter value; a call that raises leaves the counter as it was.
\<close>

theorem counter_advances_per_record:
  "(tag_find env article title_tag class_name = None \<longrightarrow>
      extract_articles env url kw class_name title_tag description_tag (article # rest) acc st =
      extract_articles env url kw class_name title_tag description_tag rest acc st) \<and>
   (\<forall>title_element.
      tag_find env article title_tag class_name = Some title_element \<and>
      classify env (strip env (tag_text env title_element)) kw = None \<longrightarrow>
      extract_articles env url kw class_name title_tag description_tag (article # rest) acc st =
      extract_articles env url kw class_name title_tag description_tag rest acc st) \<and>
   (\<forall>arts st'.
      extract_news env url kw max_articles article_elements class_name title_tag
        description_tag date_tag date_class st = (Inr arts, st') \<longrightarrow>
      unique_id_counter st' = unique_id_counter st + int (length arts) \<and>
      map article_id arts = map (\<lambda>i. unique_id_counter st + 1 + int i) [0..<length arts]) \<and>
   (\<forall>e st'.
      extract_news env url kw max_articles article_elements class_name title_tag
        description_tag date_tag date_class st = (Inl e, st') \<longrightarrow>
      unique_id_counter st' = unique_id_counter st)"
proof (intro conjI allI impI)
  assume "tag_find env article title_tag class_name = None"
  then show "extract_articles env url kw class_name title_tag description_tag (article # rest) acc st =
      extract_articles env url kw class_name title_tag description_tag rest acc st"
    by (simp add: extract_article_no_title)
next
  fix title_element
  assume "tag_find env article title_tag class_name = Some title_element \<and>
      classify env (strip env (tag_text env title_element)) kw = None"
  then show "extract_articles env url kw class_name title_tag description_tag (article # rest) acc st =
      extract_articles env url kw class_name title_tag description_tag rest acc st"
    by (simp add: extract_article_no_category)
next
  fix arts st'
  assume a: "extract_news env url kw max_articles article_elements class_name title_tag
        description_tag date_tag date_class st = (Inr arts, st')"
  from extract_news_Inr [OF a]
  show "unique_id_counter st' = unique_id_counter st + int (length arts)" by simp
  from extract_news_Inr [OF a]
  show "map article_id arts = map (\<lambda>i. unique_id_counter st + 1 + int i) [0..<length arts]"
    by simp
next
  fix e st'
  assume "extract_news env url kw max_articles article_elements class_name title_tag
        description_tag date_tag date_class st = (Inl e, st')"
  from extract_news_Inl [OF this]
  show "unique_id_counter st' = unique_id_counter st" by simp
qed

theorem counter_advances_per_record_witness:
  "extract_articles (page_env scenario_page) ''https://www.newsbtc.com/news/''
     [(''BTC'', [''Bitcoin''])] (Some ''title'') (Some ''h4'') (Some ''p'')
     [Elem ''article'' [] [] [Elem ''h4'' ''title'' ''Local weather update'' []]] []
     initial_process = (Inr [], initial_process) \<and>
   extract_articles (page_env scenario_page) ''https://www.newsbtc.com/news/''
     [(''BTC'', [''Bitcoin''])] (Some ''title'') (Some ''h4'') (Some ''p'')
     [Elem ''article'' [] [] []] [] initial_process = (Inr [], initial_process) \<and>
   unique_id_counter (snd (extract_news (page_env scenario_page)
     ''https://www.newsbtc.com/news/'' [(''BTC'', [''Bitcoin''])] 100 (Some ''article'')
     (Some ''title'') (Some ''h4'') (Some ''p'') (Some ''span'') None initial_process)) = 1"
proof (intro conjI)
  have "tag_find (page_env scenario_page)
          (Elem ''article'' [] [] [Elem ''h4'' ''title'' ''Local weather update'' []])
          (Some ''h4'') (Some ''title'') = Some (Elem ''h4'' ''title'' ''Local weather update'' []) \<and>
        classify (page_env scenario_page) (strip (page_env scenario_page) (tag_text (page_env scenario_page)
          (Elem ''h4'' ''title'' ''Local weather update'' []))) [(''BTC'', [''Bitcoin''])] = None"
    by code_simp
  from counter_advances_per_record [THEN conjunct2, THEN conjunct1, rule_format, OF this,
      where rest = "[]" and acc = "[]" and st = initial_process]
  show "extract_articles (page_env scenario_page) ''https://www.newsbtc.com/news/''
     [(''BTC'', [''Bitcoin''])] (Some ''title'') (Some ''h4'') (Some ''p'')
     [Elem ''article'' [] [] [Elem ''h4'' ''title'' ''Local weather update'' []]] []
     initial_process = (Inr [], initial_process)"
    by simp
next
  have "tag_find (page_env scenario_page) (Elem ''article'' [] [] [])
          (Some ''h4'') (Some ''title'') = None"
    by code_simp
  from counter_advances_per_record [THEN conjunct1, rule_format, OF this,
      where rest = "[]" and acc = "[]" and st = initial_process]
  show "extract_articles (page_env scenario_page) ''https://www.newsbtc.com/news/''
     [(''BTC'', [''Bitcoin''])] (Some ''title'') (Some ''h4'') (Some ''p'')
     [Elem ''article'' [] [] []] [] initial_process = (Inr [], initial_process)"
    by simp
next
  from counter_advances_per_record [THEN conjunct2, THEN conjunct2, THEN conjunct1,
      rule_format, OF scenario_extract]
  show "unique_id_counter (snd (extract_news (page_env scenario_page)
     ''https://www.newsbtc.com/news/'' [(''BTC'', [''Bitcoin''])] 100 (Some ''article'')
     (Some ''title'') (Some ''h4'') (Some ''p'') (Some ''span'') None initial_process)) = 1"
    by (simp add: scenario_extract)
qed

section \<open>The date of a record\<close>

lemma strip_tag_find: "strip (env\<lparr>tag_find := f\<rparr>) s = strip env s"
  by (simp add: strip_def)

lemma classify_tag_find: "classify (env\<lparr>tag_find := f\<rparr>) title_text kw = classify env title_text kw"
proof (induction kw)
  case Nil
  show ?case by simp
next
  case (Cons entry kw)
  obtain c ks where "entry = (c, ks)" by (cases entry)
  with Cons.IH show ?case by (simp add: lower_def)
qed

lemma requests_get_tag_find: "requests_get (env\<lparr>tag_find := f\<rparr>) url = requests_get env url"
  by (simp add: requests_get_def)

lemma extract_article_tag_find_frame:
  assumes "f article title_tag class_name = tag_find env article title_tag class_name"
    and "f article description_tag None = tag_find env article description_tag None"
  shows "extract_article (env\<lparr>tag_find := f\<rparr>) url kw class_name title_tag description_tag
           article st =
         extract_article env url kw class_name title_tag description_tag article st"
  using assms
  by (simp add: extract_article_def get_system_date_def get_sentiment_def Let_def
      strip_tag_find classify_tag_find split: option.splits)

lemma extract_articles_tag_find_frame:
  assumes "\<forall>article. f article title_tag class_name = tag_find env article title_tag class_name \<and>
              f article description_tag None = tag_find env article description_tag None"
  shows "extract_articles (env\<lparr>tag_find := f\<rparr>) url kw class_name title_tag description_tag
           frags acc st =
         extract_articles env url kw class_name title_tag description_tag frags acc st"
proof (induction frags arbitrary: acc st)
  case Nil
  show ?case by simp
next
  case (Cons article rest)
  from assms have
    "extract_article (env\<lparr>tag_find := f\<rparr>) url kw class_name title_tag description_tag
       article st =
     extract_article env url kw class_name title_tag description_tag article st"
    by (intro extract_article_tag_find_frame) simp_all
  then show ?case by (simp add: Cons.IH split: prod.splits sum.splits option.splits)
qed

lemma extract_news_tag_find_frame:
  assumes "\<forall>article. f article title_tag class_name = tag_find env article title_tag class_name \<and>
              f article description_tag None = tag_find env article description_tag None"
  shows "extract_news (env\<lparr>tag_find := f\<rparr>) url kw max_articles article_elements class_name
           title_tag description_tag date_tag date_class st =
         extract_news env url kw max_articles article_elements class_name
           title_tag description_tag date_tag date_class st"
  by (cases "requests_get env url"; cases article_elements)
     (simp_all add: extract_news_def requests_get_tag_find
        extract_articles_tag_find_frame [OF assms])

lemma extract_news_date_args:
  "extract_news env url kw max_articles article_elements class_name title_tag description_tag
     (Some dt) dc st =
   extract_news env url kw max_articles article_elements class_name title_tag description_tag
     (Some dt') dc' st"
  by (cases "requests_get env url"; cases article_elements) (simp_all add: extract_news_def)

text \<open>The digits of a day of the month and of a year of four digits.\<close>

lemma str_of_nat_digit: "n < 10 \<Longrightarrow> str_of_nat n = [''0123456789'' ! n]"
  by (subst str_of_nat.simps) simp

lemma str_of_nat_step:
  "10 \<le> n \<Longrightarrow> str_of_nat n = str_of_nat (n div 10) @ [''0123456789'' ! (n mod 10)]"
  by (subst str_of_nat.simps) simp

lemma str_of_nat_two_digits:
  assumes "10 \<le> n" and "n < 100"
  shows "str_of_nat n = [''0123456789'' ! (n div 10), ''0123456789'' ! (n mod 10)]"
proof -
  from assms have "n div 10 < 10" by simp
  then show ?thesis by (simp add: str_of_nat_step [OF assms(1)] str_of_nat_digit)
qed

lemma str_of_nat_four_digits:
  assumes "1000 \<le> n" and "n < 10000"
  shows "str_of_nat n =
    [''0123456789'' ! (n div 1000), ''0123456789'' ! (n div 100 mod 10),
     ''0123456789'' ! (n div 10 mod 10), ''0123456789'' ! (n mod 10)]"
proof -
  have "10 \<le> n" using assms by simp
  from str_of_nat_step [OF this]
  have s1: "str_of_nat n = str_of_nat (n div 10) @ [''0123456789'' ! (n mod 10)]" .
  have "10 \<le> n div 10" using assms by simp
  from str_of_nat_step [OF this]
  have s2: "str_of_nat (n div 10) =
      str_of_nat (n div 100) @ [''0123456789'' ! (n div 10 mod 10)]"
    by (simp add: div_mult2_eq [symmetric])
  have "10 \<le> n div 100" using assms by simp
  from str_of_nat_step [OF this]
  have s3: "str_of_nat (n div 100) =
      str_of_nat (n div 1000) @ [''0123456789'' ! (n div 100 mod 10)]"
    by (simp add: div_mult2_eq [symmetric])
  have "n div 1000 < 10" using assms by simp
  from str_of_nat_digit [OF this]
  have s4: "str_of_nat (n div 1000) = [''0123456789'' ! (n div 1000)]" .
  show ?thesis by (simp only: s1 s2 s3 s4) simp
qed

lemma strftime_digits:
  assumes "day d < 100" and "1000 \<le> year d" and "year d < 10000"
  shows "strftime_B_d_Y d =
    month_name (month d) @ '' '' @
    [''0123456789'' ! (day d div 10), ''0123456789'' ! (day d mod 10)] @ '', '' @
    [''0123456789'' ! (year d div 1000), ''0123456789'' ! (year d div 100 mod 10),
     ''0123456789'' ! (year d div 10 mod 10), ''0123456789'' ! (year d mod 10)]"
proof (cases "day d < 10")
  case True
  then show ?thesis
    by (simp add: strftime_B_d_Y_def str_of_nat_digit str_of_nat_four_digits [OF assms(2,3)])
next
  case False
  then have "10 \<le> day d" by simp
  from str_of_nat_two_digits [OF this assms(1)] False show ?thesis
    by (simp add: strftime_B_d_Y_def str_of_nat_four_digits [OF assms(2,3)])
qed

text \<open>
  Claim C7. The \<open>Date\<close> of every record returned is a reading of the system clock taken
  during the call: the record at position \<open>i\<close> carries the reading of the \<open>i\<close>-th clock
  call of the run, formatted as the English name of the month, a space, the day of the
  month in two digits, a comma and a space, and the year (for the years 1000 to 9999 its
  four digits); 7 March 2024 gives "March 07, 2024". The date selector and the date class
  do not enter the result: any two values of \<open>date_tag\<close> and \<open>date_class\<close> give the same
  outcome, and so does any document that answers the title and description queries in
  the same way, whatever it answers to every other query.
\<close>

theorem date_is_system_date:
  "(\<forall>arts st'.
      extract_news env url kw max_articles article_elements class_name title_tag
        description_tag date_tag date_class st = (Inr arts, st') \<longrightarrow>
      map Date arts =
        map (\<lambda>i. strftime_B_d_Y (datetime_now env (clock_reads st + i))) [0..<length arts]) \<and>
   strftime_B_d_Y d =
     month_name (month d) @ '' '' @ (if day d < 10 then ''0'' else []) @ str_of_nat (day d) @
     '', '' @ str_of_nat (year d) \<and>
   map month_name [January, February, March, April, May, June, July, August, September,
     October, November, December] =
     [''January'', ''February'', ''March'', ''April'', ''May'', ''June'', ''July'', ''August'',
      ''September'', ''October'', ''November'', ''December''] \<and>
   (day d < 100 \<and> 1000 \<le> year d \<and> year d < 10000 \<longrightarrow>
    strftime_B_d_Y d =
      month_name (month d) @ '' '' @
      [''0123456789'' ! (day d div 10), ''0123456789'' ! (day d mod 10)] @ '', '' @
      [''0123456789'' ! (year d div 1000), ''0123456789'' ! (year d div 100 mod 10),
       ''0123456789'' ! (year d div 10 mod 10), ''0123456789'' ! (year d mod 10)]) \<and>
   strftime_B_d_Y \<lparr>year = 2024, month = March, day = 7\<rparr> = ''March 07, 2024'' \<and>
   strftime_B_d_Y \<lparr>year = 1999, month = December, day = 25\<rparr> = ''December 25, 1999'' \<and>
   extract_news env url kw max_articles article_elements class_name title_tag description_tag
     (Some dt) dc st =
   extract_news env url kw max_articles article_elements class_name title_tag description_tag
     (Some dt') dc' st \<and>
   ((\<forall>article. f article title_tag class_name = tag_find env article title_tag class_name \<and>
        f article description_tag None = tag_find env article description_tag None) \<longrightarrow>
    extract_news (env\<lparr>tag_find := f\<rparr>) url kw max_articles article_elements class_name
      title_tag description_tag date_tag date_class st =
    extract_news env url kw max_articles article_elements class_name
      title_tag description_tag date_tag date_class st)"
proof (intro conjI allI impI)
  fix arts st'
  assume "extract_news env url kw max_articles article_elements class_name title_tag
        description_tag date_tag date_class st = (Inr arts, st')"
  from extract_news_Inr [OF this]
  show "map Date arts =
        map (\<lambda>i. strftime_B_d_Y (datetime_now env (clock_reads st + i))) [0..<length arts]"
    by simp
next
  show "strftime_B_d_Y d =
     month_name (month d) @ '' '' @ (if day d < 10 then ''0'' else []) @ str_of_nat (day d) @
     '', '' @ str_of_nat (year d)"
    by (simp add: strftime_B_d_Y_def)
next
  show "map month_name [January, February, March, April, May, June, July, August, September,
     October, November, December] =
     [''January'', ''February'', ''March'', ''April'', ''May'', ''June'', ''July'', ''August'',
      ''September'', ''October'', ''November'', ''December'']"
    by simp
next
  assume "day d < 100 \<and> 1000 \<le> year d \<and> year d < 10000"
  then show "strftime_B_d_Y d =
      month_name (month d) @ '' '' @
      [''0123456789'' ! (day d div 10), ''0123456789'' ! (day d mod 10)] @ '', '' @
      [''0123456789'' ! (year d div 1000), ''0123456789'' ! (year d div 100 mod 10),
       ''0123456789'' ! (year d div 10 mod 10), ''0123456789'' ! (year d mod 10)]"
    by (intro strftime_digits) simp_all
next
  show "strftime_B_d_Y \<lparr>year = 2024, month = March, day = 7\<rparr> = ''March 07, 2024''"
    by code_simp
next
  show "strftime_B_d_Y \<lparr>year = 1999, month = December, day = 25\<rparr> = ''December 25, 1999''"
    by code_simp
next
  show "extract_news env url kw max_articles article_elements class_name title_tag
     description_tag (Some dt) dc st =
   extract_news env url kw max_articles article_elements class_name title_tag description_tag
     (Some dt') dc' st"
    by (rule extract_news_date_args)
next
  assume "\<forall>article. f article title_tag class_name = tag_find env article title_tag class_name \<and>
        f article description_tag None = tag_find env article description_tag None"
  then show "extract_news (env\<lparr>tag_find := f\<rparr>) url kw max_articles article_elements class_name
      title_tag description_tag date_tag date_class st =
    extract_news env url kw max_articles article_elements class_name
      title_tag description_tag date_tag date_class st"
    by (rule extract_news_tag_find_frame)
qed

theorem date_is_system_date_witness:
  "map Date (projr (fst (extract_news (page_env scenario_page)
     ''https://www.newsbtc.com/news/'' [(''BTC'', [''Bitcoin''])] 100 (Some ''article'')
     (Some ''title'') (Some ''h4'') (Some ''p'') (Some ''span'') None initial_process))) =
   [''March 07, 2024''] \<and>
   strftime_B_d_Y \<lparr>year = 2026, month = November, day = 4\<rparr> = ''November 04, 2026''"
proof
  from date_is_system_date [THEN conjunct1, rule_format, OF scenario_extract]
  show "map Date (projr (fst (extract_news (page_env scenario_page)
     ''https://www.newsbtc.com/news/'' [(''BTC'', [''Bitcoin''])] 100 (Some ''article'')
     (Some ''title'') (Some ''h4'') (Some ''p'') (Some ''span'') None initial_process))) =
   [''March 07, 2024'']"
    by (simp add: scenario_extract)
next
  have "day \<lparr>year = 2026, month = November, day = 4\<rparr> < 100 \<and>
        1000 \<le> year \<lparr>year = 2026, month = November, day = 4\<rparr> \<and>
        year \<lparr>year = 2026, month = November, day = 4\<rparr> < 10000"
    by simp
  from date_is_system_date [THEN conjunct2, THEN conjunct2, THEN conjunct2, THEN conjunct1,
      rule_format, OF this]
  show "strftime_B_d_Y \<lparr>year = 2026, month = November, day = 4\<rparr> = ''November 04, 2026''"
    by simp
qed

section \<open>The source name\<close>

lemma two_slashes: "2 < length (str_split CHR ''/'' url) \<longleftrightarrow> 2 \<le> count_list url CHR ''/''"
  by (simp add: length_str_split) arith

lemma extract_articles_index_error:
  assumes bad: "\<not> 2 < length (str_split CHR ''/'' url)"
    and title: "tag_find env article title_tag class_name = Some title_element"
    and cat: "classify env (strip env (tag_text env title_element)) kw = Some category"
  shows "article \<in> set frags \<Longrightarrow>
    extract_articles env url kw class_name title_tag description_tag frags acc st =
      (Inl IndexError, st\<lparr>clock_reads := clock_reads st + 1\<rparr>)"
proof (induction frags arbitrary: acc st)
  case Nil
  then show ?case by simp
next
  case (Cons a rest)
  show ?case
  proof (cases rule: extract_article_cases
      [of env url kw class_name title_tag description_tag a st])
    case skip
    have "a \<noteq> article"
    proof
      assume "a = article"
      with skip extract_article_index_error [OF title cat bad,
          where st = st and description_tag = description_tag]
      show False by simp
    qed
    with Cons.prems have "article \<in> set rest" by simp
    from Cons.IH [OF this] skip show ?thesis by simp
  next
    case fail
    then show ?thesis by simp
  next
    case (emit r)
    with bad show ?thesis by simp
  qed
qed

lemma url_check_two_slashes:
  assumes "str_in ''://'' url"
  shows "2 \<le> count_list url CHR ''/''"
proof -
  from assms obtain ps ss where "url = ps @ ''://'' @ ss"
    by (auto simp: str_in_sublist sublist_def)
  then show ?thesis by simp
qed

lemma requests_get_two_slashes:
  "requests_get env url = Some content \<Longrightarrow> 2 \<le> count_list url CHR ''/''"
  by (rule url_check_two_slashes) (simp add: requests_get_def split: if_splits)

lemma requests_get_no_scheme:
  "count_list url CHR ''/'' < 2 \<Longrightarrow> requests_get env url = None"
  using requests_get_two_slashes [of env url] by (cases "requests_get env url") auto

text \<open>
  Claim C9. The source name is the third piece of the url split at the slashes, taken
  without a guard. A call that returns at least one record was given a url with at least
  two slashes, and every record carries that third piece as its \<open>Source\<close>. With fewer
  than two slashes, the loop over a list of article elements that holds one with a title
  of some category ends with \<open>IndexError\<close>, the id counter unchanged, so no record with
  a defaulted source is produced; and the call as a whole fails already at the fetch,
  which accepts no such url.
\<close>

theorem source_name_needs_two_slashes:
  "(\<forall>arts st'.
      extract_news env url kw max_articles article_elements class_name title_tag
        description_tag date_tag date_class st = (Inr arts, st') \<and> arts \<noteq> [] \<longrightarrow>
      2 \<le> count_list url CHR ''/'' \<and>
      (\<forall>r \<in> set arts. Source r = str_split CHR ''/'' url ! 2)) \<and>
   (count_list url CHR ''/'' < 2 \<and>
    article \<in> set frags \<and>
    tag_find env article title_tag class_name = Some title_element \<and>
    classify env (strip env (tag_text env title_element)) kw = Some category \<longrightarrow>
    extract_articles env url kw class_name title_tag description_tag frags acc st =
      (Inl IndexError, st\<lparr>clock_reads := clock_reads st + 1\<rparr>) \<and>
    unique_id_counter (st\<lparr>clock_reads := clock_reads st + 1\<rparr>) = unique_id_counter st) \<and>
   (count_list url CHR ''/'' < 2 \<longrightarrow>
    extract_news env url kw max_articles article_elements class_name title_tag
      description_tag date_tag date_class st = (Inl RequestException, st))"
proof (intro conjI allI impI)
  fix arts st'
  assume a: "extract_news env url kw max_articles article_elements class_name title_tag
        description_tag date_tag date_class st = (Inr arts, st') \<and> arts \<noteq> []"
  from extract_news_Inr [OF conjunct1 [OF a]] a
  show "2 \<le> count_list url CHR ''/''" by (simp add: two_slashes)
  from extract_news_Inr [OF conjunct1 [OF a]]
  show "\<forall>r \<in> set arts. Source r = str_split CHR ''/'' url ! 2" by simp
next
  assume a: "count_list url CHR ''/'' < 2 \<and>
    article \<in> set frags \<and>
    tag_find env article title_tag class_name = Some title_element \<and>
    classify env (strip env (tag_text env title_element)) kw = Some category"
  then have bad: "\<not> 2 < length (str_split CHR ''/'' url)" by (simp add: two_slashes)
  from a have mem: "article \<in> set frags"
    and title: "tag_find env article title_tag class_name = Some title_element"
    and cat: "classify env (strip env (tag_text env title_element)) kw = Some category"
    by simp_all
  show "extract_articles env url kw class_name title_tag description_tag frags acc st =
      (Inl IndexError, st\<lparr>clock_reads := clock_reads st + 1\<rparr>)"
    by (rule extract_articles_index_error [OF bad title cat mem])
  show "unique_id_counter (st\<lparr>clock_reads := clock_reads st + 1\<rparr>) = unique_id_counter st"
    by simp
next
  assume "count_list url CHR ''/'' < 2"
  then have "requests_get env url = None" by (rule requests_get_no_scheme)
  then show "extract_news env url kw max_articles article_elements class_name title_tag
      description_tag date_tag date_class st = (Inl RequestException, st)"
    by (rule extract_news_fetch_failed)
qed

theorem source_name_needs_two_slashes_witness:
  "2 \<le> count_list ''https://www.newsbtc.com/news/'' CHR ''/'' \<and>
   extract_articles (page_env headline_page) ''www.newsbtc.com/news''
     [(''BTC'', [''Bitcoin''])] (Some ''title'') (Some ''h4'') (Some ''p'') headline_page []
     initial_process =
     (Inl IndexError, initial_process\<lparr>clock_reads := clock_reads initial_process + 1\<rparr>) \<and>
   extract_news (page_env headline_page) ''www.newsbtc.com/news''
     [(''BTC'', [''Bitcoin''])] 100 (Some ''article'') (Some ''title'') (Some ''h4'') (Some ''p'')
     (Some ''span'') None initial_process = (Inl RequestException, initial_process)"
proof (intro conjI)
  have "extract_news (page_env scenario_page) ''https://www.newsbtc.com/news/''
     [(''BTC'', [''Bitcoin''])] 100 (Some ''article'') (Some ''title'') (Some ''h4'') (Some ''p'')
     (Some ''span'') None initial_process =
   (Inr [\<lparr>article_id = 1, Title = ''Bitcoin hits new high'',
          Description = ''Analysts react'', Date = ''March 07, 2024'',
          Source = ''www.newsbtc.com'',
          Source_URL = ''https://www.newsbtc.com/news/'',
          Category = ''BTC'', Sentiment = ''positive''\<rparr>],
    \<lparr>unique_id_counter = 1, clock_reads = 1, stdout = []\<rparr>) \<and>
    [\<lparr>article_id = 1, Title = ''Bitcoin hits new high'',
          Description = ''Analysts react'', Date = ''March 07, 2024'',
          Source = ''www.newsbtc.com'',
          Source_URL = ''https://www.newsbtc.com/news/'',
          Category = ''BTC'', Sentiment = ''positive''\<rparr>] \<noteq> []"
    by (simp add: scenario_extract)
  from source_name_needs_two_slashes [THEN conjunct1, rule_format, OF this]
  show "2 \<le> count_list ''https://www.newsbtc.com/news/'' CHR ''/''" by simp
next
  have "count_list ''www.newsbtc.com/news'' CHR ''/'' < 2 \<and>
    Elem ''article'' [] [] [Elem ''h4'' ''title'' ''Bitcoin hits new high'' []]
      \<in> set headline_page \<and>
    tag_find (page_env headline_page)
      (Elem ''article'' [] [] [Elem ''h4'' ''title'' ''Bitcoin hits new high'' []])
      (Some ''h4'') (Some ''title'') = Some (Elem ''h4'' ''title'' ''Bitcoin hits new high'' []) \<and>
    classify (page_env headline_page) (strip (page_env headline_page)
      (tag_text (page_env headline_page) (Elem ''h4'' ''title'' ''Bitcoin hits new high'' [])))
      [(''BTC'', [''Bitcoin''])] = Some ''BTC''"
    by code_simp
  from source_name_needs_two_slashes [THEN conjunct2, THEN conjunct1, rule_format, OF this,
      THEN conjunct1]
  show "extract_articles (page_env headline_page) ''www.newsbtc.com/news''
     [(''BTC'', [''Bitcoin''])] (Some ''title'') (Some ''h4'') (Some ''p'') headline_page []
     initial_process =
     (Inl IndexError, initial_process\<lparr>clock_reads := clock_reads initial_process + 1\<rparr>)" .
next
  have "count_list ''www.newsbtc.com/news'' CHR ''/'' < 2" by simp
  from source_name_needs_two_slashes [THEN conjunct2, THEN conjunct2, rule_format, OF this]
  show "extract_news (page_env headline_page) ''www.newsbtc.com/news''
     [(''BTC'', [''Bitcoin''])] 100 (Some ''article'') (Some ''title'') (Some ''h4'') (Some ''p'')
     (Some ''span'') None initial_process = (Inl RequestException, initial_process)" .
qed

section \<open>A missing description\<close>

text \<open>
  Claim C8. For an article element of the fetched page, among those selected, that has a
  title element whose text matches a category and has no element of the description tag,
  \<open>extract_news\<close> returns, and its result holds, after the records of the elements before,
  a record for this element with that title, that category and the empty string as
  \<open>Description\<close>.
\<close>

theorem empty_description_default:
  assumes fetch: "requests_get env url = Some content"
    and frags: "slice_to (soup_find_all env (BeautifulSoup env content) name) max_articles =
                  before @ article # rest"
    and title: "tag_find env article title_tag (Some cn) = Some title_element"
    and cat: "classify env (strip env (tag_text env title_element)) kw = Some category"
    and nodesc: "tag_find env article description_tag None = None"
  shows "\<exists>pre r post st1 st'.
    extract_articles env url kw (Some cn) title_tag description_tag before [] st =
      (Inr pre, st1) \<and>
    extract_news env url kw max_articles (Some name) (Some cn) title_tag description_tag
      (Some dt) date_class st = (Inr (pre @ r # post), st') \<and>
    Title r = strip env (tag_text env title_element) \<and> Category r = category \<and>
    Description r = []"
proof -
  from requests_get_two_slashes [OF fetch]
  have ok: "2 < length (str_split CHR ''/'' url)" by (simp add: two_slashes)
  from extract_articles_total [OF ok] obtain pre st1 where
    pre: "extract_articles env url kw (Some cn) title_tag description_tag before [] st =
            (Inr pre, st1)"
    by blast
  define r where "r = \<lparr>article_id = unique_id_counter st1 + 1,
                 Title = strip env (tag_text env title_element),
                 Description = [],
                 Date = strftime_B_d_Y (datetime_now env (clock_reads st1)),
                 Source = str_split CHR ''/'' url ! 2,
                 Source_URL = url,
                 Category = category,
                 Sentiment = get_sentiment env (strip env (tag_text env title_element) @ '' '')\<rparr>"
  define st2 where "st2 = st1\<lparr>clock_reads := clock_reads st1 + 1,
                             unique_id_counter := unique_id_counter st1 + 1\<rparr>"
  have body: "extract_article env url kw (Some cn) title_tag description_tag article st1 =
                (Inr (Some r), st2)"
    using extract_article_record [OF title cat ok, where st = st1 and
        description_tag = description_tag]
    by (simp add: nodesc r_def st2_def)
  from extract_articles_total [OF ok] obtain arts st' where
    tail: "extract_articles env url kw (Some cn) title_tag description_tag rest (pre @ [r]) st2 =
             (Inr arts, st')"
    by blast
  from extract_articles_Inr [OF tail] obtain post where post: "arts = (pre @ [r]) @ post"
    by blast
  have "extract_news env url kw max_articles (Some name) (Some cn) title_tag description_tag
      (Some dt) date_class st = (Inr (pre @ r # post), st')"
    by (simp add: extract_news_loop [OF fetch] frags extract_articles_append pre body tail post)
  moreover have "Title r = strip env (tag_text env title_element)" "Category r = category"
    "Description r = []"
    by (simp_all add: r_def)
  ultimately show ?thesis using pre by blast
qed

theorem empty_description_default_witness:
  "\<exists>pre r post st1 st'.
    extract_articles (page_env headline_page) ''https://www.newsbtc.com/news/''
      [(''BTC'', [''Bitcoin''])] (Some ''title'') (Some ''h4'') (Some ''p'') [] []
      initial_process = (Inr pre, st1) \<and>
    extract_news (page_env headline_page) ''https://www.newsbtc.com/news/''
      [(''BTC'', [''Bitcoin''])] 100 (Some ''article'') (Some ''title'') (Some ''h4'')
      (Some ''p'') (Some ''span'') None initial_process = (Inr (pre @ r # post), st') \<and>
    Title r = strip (page_env headline_page) (tag_text (page_env headline_page)
      (Elem ''h4'' ''title'' ''Bitcoin hits new high'' [])) \<and>
    Category r = ''BTC'' \<and> Description r = []"
proof (rule empty_description_default)
  show "requests_get (page_env headline_page) ''https://www.newsbtc.com/news/'' =
          Some headline_page"
    by (simp add: requests_get_def page_env_def)
  show "slice_to (soup_find_all (page_env headline_page)
          (BeautifulSoup (page_env headline_page) headline_page) ''article'') 100 =
        [] @ Elem ''article'' [] [] [Elem ''h4'' ''title'' ''Bitcoin hits new high'' []] # []"
    by code_simp
  show "tag_find (page_env headline_page)
          (Elem ''article'' [] [] [Elem ''h4'' ''title'' ''Bitcoin hits new high'' []])
          (Some ''h4'') (Some ''title'') =
        Some (Elem ''h4'' ''title'' ''Bitcoin hits new high'' [])"
    by (simp add: page_env_def)
  show "classify (page_env headline_page) (strip (page_env headline_page) (tag_text (page_env headline_page)
          (Elem ''h4'' ''title'' ''Bitcoin hits new high'' []))) [(''BTC'', [''Bitcoin''])] =
        Some ''BTC''"
    by code_simp
  show "tag_find (page_env headline_page)
          (Elem ''article'' [] [] [Elem ''h4'' ''title'' ''Bitcoin hits new high'' []])
          (Some ''p'') None = None"
    by (simp add: page_env_def)
qed

section \<open>save_to_mongo\<close>

lemma existing_ids_eq:
  "existing_ids data coll = article_id ` set (documents coll) \<inter> article_id ` set data"
  by (auto simp: existing_ids_def find_id_in_def)

lemma new_articles_eq:
  "new_articles data coll =
     filter (\<lambda>article. article_id article \<notin> article_id ` set (documents coll)) data"
  by (auto simp: new_articles_def existing_ids_eq intro: filter_cong)

lemma save_to_mongo_new:
  "new_articles data coll \<noteq> [] \<Longrightarrow>
   save_to_mongo data coll st =
     (PyNone,
      \<lparr>documents = documents coll @ new_articles data coll,
       calls = calls coll @ [Find_id_in (map article_id data),
                             Insert_many (new_articles data coll), Find_one_sort_id_desc]\<rparr>,
      \<lparr>unique_id_counter =
         (case max_id_doc (documents coll @ new_articles data coll) of
            Some doc \<Rightarrow> article_id doc | None \<Rightarrow> 0),
       clock_reads = clock_reads st,
       stdout = stdout st @ [''Inserted '' @ str_of_nat (length (new_articles data coll)) @
                             '' new articles into MongoDB.'']\<rparr>)"
  by (simp add: save_to_mongo_def Let_def find_id_in_def insert_many_def
      find_one_sort_id_desc_def print_def split: option.splits)

lemma save_to_mongo_none:
  "new_articles data coll = [] \<Longrightarrow>
   save_to_mongo data coll st =
     (PyNone,
      \<lparr>documents = documents coll,
       calls = calls coll @ [Find_id_in (map article_id data), Find_one_sort_id_desc]\<rparr>,
      \<lparr>unique_id_counter =
         (case max_id_doc (documents coll) of Some doc \<Rightarrow> article_id doc | None \<Rightarrow> 0),
       clock_reads = clock_reads st,
       stdout = stdout st @
         [''No new articles to insert. All articles were already present.'']\<rparr>)"
  by (simp add: save_to_mongo_def Let_def find_id_in_def insert_many_def
      find_one_sort_id_desc_def print_def split: option.splits)

lemma save_to_mongo_documents:
  "documents (fst (snd (save_to_mongo data coll st))) = documents coll @ new_articles data coll"
  by (cases "new_articles data coll = []") (simp_all add: save_to_mongo_new save_to_mongo_none)

lemma new_articles_after_save:
  "new_articles data (fst (snd (save_to_mongo data coll st))) = []"
proof -
  have "\<forall>a \<in> set data. article_id a \<in> article_id ` set (documents coll @ new_articles data coll)"
    by (auto simp: new_articles_eq)
  then show ?thesis
    by (simp only: new_articles_eq [of data "fst (snd (save_to_mongo data coll st))"]
          save_to_mongo_documents filter_empty_conv) blast
qed

lemma save_bitcoin_article:
  "save_to_mongo [bitcoin_article] empty_news initial_process =
     (PyNone,
      \<lparr>documents = [bitcoin_article],
       calls = [Find_id_in [1], Insert_many [bitcoin_article], Find_one_sort_id_desc]\<rparr>,
      \<lparr>unique_id_counter = 1, clock_reads = 0,
       stdout = [''Inserted 1 new articles into MongoDB.'']\<rparr>)"
proof -
  have new: "new_articles [bitcoin_article] empty_news = [bitcoin_article]"
    by (simp add: new_articles_eq empty_news_def)
  show ?thesis
    by (simp add: save_to_mongo_new new)
       (simp add: empty_news_def initial_process_def bitcoin_article_def str_of_nat.simps)
qed

lemma save_bitcoin_article_again:
  "save_to_mongo [bitcoin_article]
     \<lparr>documents = [bitcoin_article],
      calls = [Find_id_in [1], Insert_many [bitcoin_article], Find_one_sort_id_desc]\<rparr>
     \<lparr>unique_id_counter = 1, clock_reads = 0,
      stdout = [''Inserted 1 new articles into MongoDB.'']\<rparr> =
     (PyNone,
      \<lparr>documents = [bitcoin_article],
       calls = [Find_id_in [1], Insert_many [bitcoin_article], Find_one_sort_id_desc,
                Find_id_in [1], Find_one_sort_id_desc]\<rparr>,
      \<lparr>unique_id_counter = 1, clock_reads = 0,
       stdout = [''Inserted 1 new articles into MongoDB.'',
                 ''No new articles to insert. All articles were already present.'']\<rparr>)"
proof -
  have none: "new_articles [bitcoin_article]
     \<lparr>documents = [bitcoin_article],
      calls = [Find_id_in [1], Insert_many [bitcoin_article], Find_one_sort_id_desc]\<rparr> = []"
    by (simp add: new_articles_eq)
  show ?thesis
    by (simp add: save_to_mongo_none none) (simp add: bitcoin_article_def)
qed

text \<open>
  Claim C2. Saving a batch and then saving the same batch again: after the first call the
  collection holds what it held before followed by the new articles of the batch; in the
  second call no article of the batch is new, so the collection keeps its documents, the
  only operations are the query for the ids and the query for the largest id (no insert),
  and the line printed is the one for zero insertions.
\<close>

theorem save_to_mongo_idempotent:
  assumes first: "save_to_mongo data coll st = (r1, coll1, st1)"
    and second: "save_to_mongo data coll1 st1 = (r2, coll2, st2)"
  shows "documents coll1 = documents coll @ new_articles data coll \<and>
    article_id ` set data \<subseteq> existing_ids data coll1 \<and>
    new_articles data coll1 = [] \<and>
    documents coll2 = documents coll1 \<and>
    calls coll2 = calls coll1 @ [Find_id_in (map article_id data), Find_one_sort_id_desc] \<and>
    stdout st2 = stdout st1 @
      [''No new articles to insert. All articles were already present.'']"
proof -
  from first have c1: "coll1 = fst (snd (save_to_mongo data coll st))" by simp
  have d1: "documents coll1 = documents coll @ new_articles data coll"
    by (simp only: c1 save_to_mongo_documents)
  have none: "new_articles data coll1 = []"
    by (simp only: c1 new_articles_after_save)
  then have found: "article_id ` set data \<subseteq> existing_ids data coll1"
    by (auto simp: new_articles_def filter_empty_conv)
  from save_to_mongo_none [OF none, of st1] second
  have "documents coll2 = documents coll1"
    "calls coll2 = calls coll1 @ [Find_id_in (map article_id data), Find_one_sort_id_desc]"
    "stdout st2 = stdout st1 @
      [''No new articles to insert. All articles were already present.'']"
    by auto
  with d1 none found show ?thesis by simp
qed

theorem save_to_mongo_idempotent_witness:
  "new_articles [bitcoin_article]
     (fst (snd (save_to_mongo [bitcoin_article] empty_news initial_process))) = [] \<and>
   documents (fst (snd (save_to_mongo [bitcoin_article]
     (fst (snd (save_to_mongo [bitcoin_article] empty_news initial_process)))
     (snd (snd (save_to_mongo [bitcoin_article] empty_news initial_process)))))) =
     [bitcoin_article]"
  using save_to_mongo_idempotent [OF save_bitcoin_article save_bitcoin_article_again]
  by (simp add: save_bitcoin_article save_bitcoin_article_again)

text \<open>
  Claim C3, as amended. \<open>save_to_mongo\<close> queries the collection once for the documents
  whose id is among the ids of the batch, appends to the collection, in one
  \<open>insert_many\<close>, exactly the articles of the batch whose id no document has, performs no
  insert when there is none, and prints the number of inserted articles (or the line for
  none). The value it returns to its caller is \<open>None\<close>.
\<close>

theorem save_to_mongo_contract:
  assumes "save_to_mongo data coll st = (r, coll', st')"
  shows "r = PyNone \<and>
    fst (find_id_in (map article_id data) coll) =
      filter (\<lambda>doc. article_id doc \<in> article_id ` set data) (documents coll) \<and>
    new_articles data coll =
      filter (\<lambda>article. article_id article \<notin> article_id ` set (documents coll)) data \<and>
    documents coll' = documents coll @ new_articles data coll \<and>
    calls coll' = calls coll @ [Find_id_in (map article_id data)] @
      (if new_articles data coll = [] then [] else [Insert_many (new_articles data coll)]) @
      [Find_one_sort_id_desc] \<and>
    stdout st' = stdout st @
      [if new_articles data coll = []
       then ''No new articles to insert. All articles were already present.''
       else ''Inserted '' @ str_of_nat (length (new_articles data coll)) @
            '' new articles into MongoDB.'']"
proof (cases "new_articles data coll = []")
  case True
  from save_to_mongo_none [OF True, of st] assms
  have "r = PyNone" "documents coll' = documents coll @ new_articles data coll"
    "calls coll' = calls coll @ [Find_id_in (map article_id data), Find_one_sort_id_desc]"
    "stdout st' = stdout st @
       [''No new articles to insert. All articles were already present.'']"
    using True by auto
  then show ?thesis using True
    by (simp add: find_id_in_def new_articles_eq [symmetric])
next
  case False
  from save_to_mongo_new [OF False, of st] assms
  have "r = PyNone" "documents coll' = documents coll @ new_articles data coll"
    "calls coll' = calls coll @ [Find_id_in (map article_id data),
       Insert_many (new_articles data coll), Find_one_sort_id_desc]"
    "stdout st' = stdout st @
       [''Inserted '' @ str_of_nat (length (new_articles data coll)) @
        '' new articles into MongoDB.'']"
    by auto
  then show ?thesis using False
    by (simp add: find_id_in_def new_articles_eq [symmetric])
qed

theorem save_to_mongo_contract_witness:
  "fst (save_to_mongo [bitcoin_article] empty_news initial_process) = PyNone \<and>
   documents (fst (snd (save_to_mongo [bitcoin_article] empty_news initial_process))) =
     documents empty_news @ new_articles [bitcoin_article] empty_news"
proof -
  note contract = save_to_mongo_contract [OF save_bitcoin_article]
  from contract [THEN conjunct1]
    contract [THEN conjunct2, THEN conjunct2, THEN conjunct2, THEN conjunct1]
  show ?thesis by (simp add: save_bitcoin_article)
qed

text \<open>
  One new article is inserted, and the value returned is not the count 1.
\<close>

theorem save_to_mongo_contract_counterexample:
  "new_articles [bitcoin_article] empty_news = [bitcoin_article] \<and>
   fst (save_to_mongo [bitcoin_article] empty_news initial_process) \<noteq> PyInt 1"
  by (simp add: save_bitcoin_article) (simp add: new_articles_eq empty_news_def)

section \<open>Ids across runs\<close>

lemma first_day_sites:
  "extract_sites (page_env first_day_page) main_keywords main_urls [] initial_process =
     (Inr [bitcoin_article],
      \<lparr>unique_id_counter = 1, clock_reads = 1,
       stdout = [''Extracted 1 articles from https://www.newsbtc.com/news/.'',
                 ''Extracted 0 articles from https://cryptopotato.com/crypto-news/.'',
                 ''Extracted 0 articles from https://cryptobriefing.com/news/.'']\<rparr>)"
  by code_simp

lemma second_day_sites:
  "extract_sites (page_env second_day_page) main_keywords main_urls [] initial_process =
     (Inr [\<lparr>article_id = 1, Title = ''Ethereum upgrade goes live'',
            Description = ''Developers confirm'', Date = ''March 07, 2024'',
            Source = ''www.newsbtc.com'', Source_URL = ''https://www.newsbtc.com/news/'',
            Category = ''ETH'', Sentiment = ''positive''\<rparr>],
      \<lparr>unique_id_counter = 1, clock_reads = 1,
       stdout = [''Extracted 1 articles from https://www.newsbtc.com/news/.'',
                 ''Extracted 0 articles from https://cryptopotato.com/crypto-news/.'',
                 ''Extracted 0 articles from https://cryptobriefing.com/news/.'']\<rparr>)"
  by code_simp

lemma first_day_main:
  "fst (snd (main (page_env first_day_page) empty_news)) =
     \<lparr>documents = [bitcoin_article],
      calls = [Find_id_in [1], Insert_many [bitcoin_article], Find_one_sort_id_desc]\<rparr>"
proof -
  have new: "new_articles [bitcoin_article] empty_news = [bitcoin_article]"
    by (simp add: new_articles_eq empty_news_def)
  show ?thesis
    by (simp add: main_def run_def first_day_sites save_to_mongo_new new)
       (simp add: empty_news_def bitcoin_article_def)
qed

lemma max_id_doc_None: "max_id_doc docs = None \<longleftrightarrow> docs = []"
  by (induction docs) (simp_all split: option.splits)

lemma max_id_doc_Some:
  "max_id_doc docs = Some doc \<Longrightarrow>
   doc \<in> set docs \<and> (\<forall>other \<in> set docs. article_id other \<le> article_id doc)"
proof (induction docs arbitrary: doc)
  case Nil
  then show ?case by simp
next
  case (Cons d docs)
  show ?case
  proof (cases "max_id_doc docs")
    case None
    with Cons.prems show ?thesis by (simp add: max_id_doc_None)
  next
    case (Some best)
    from Cons.IH [OF Some] Cons.prems Some show ?thesis
      by (auto split: if_splits)
  qed
qed

text \<open>
  What does hold of the ids: the counter is set from the collection at the end of
  \<open>save_to_mongo\<close>, after the batch has been extracted and saved, and a batch with distinct
  ids keeps the ids of the collection distinct.
\<close>

lemma save_to_mongo_counter:
  "unique_id_counter (snd (snd (save_to_mongo data coll st))) =
     (case max_id_doc (documents coll @ new_articles data coll) of
        Some doc \<Rightarrow> article_id doc | None \<Rightarrow> 0)"
  by (cases "new_articles data coll = []") (simp_all add: save_to_mongo_new save_to_mongo_none)

lemma save_to_mongo_distinct:
  assumes "distinct (map article_id (documents coll))" and "distinct (map article_id data)"
  shows "distinct (map article_id (documents (fst (snd (save_to_mongo data coll st)))))"
proof -
  have "distinct (map article_id (new_articles data coll))"
    using assms(2) by (simp add: new_articles_eq distinct_map_filter)
  moreover have "set (map article_id (documents coll)) \<inter>
      set (map article_id (new_articles data coll)) = {}"
    by (auto simp: new_articles_eq image_iff)
  ultimately show ?thesis using assms(1)
    by (simp add: save_to_mongo_documents)
qed

text \<open>
  Claim C1. The counter starts at 0 in every run and is set from the collection only at
  the end of \<open>save_to_mongo\<close>, so the ids given out after a restart are those of the run
  before. Two runs of the main block against one collection, the site showing a new
  article on the second day: the first run stores the Bitcoin article under id 1; the
  second run gives id 1 to the Ethereum article, finds that id in the collection and
  drops the article, and the collection still holds the Bitcoin article alone.
\<close>

theorem restart_reuses_ids:
  "documents (fst (snd (main (page_env first_day_page) empty_news))) = [bitcoin_article] \<and>
   fst (extract_sites (page_env second_day_page) main_keywords main_urls [] initial_process) =
     Inr [\<lparr>article_id = 1, Title = ''Ethereum upgrade goes live'',
           Description = ''Developers confirm'', Date = ''March 07, 2024'',
           Source = ''www.newsbtc.com'', Source_URL = ''https://www.newsbtc.com/news/'',
           Category = ''ETH'', Sentiment = ''positive''\<rparr>] \<and>
   documents (fst (snd (main (page_env second_day_page)
     (fst (snd (main (page_env first_day_page) empty_news)))))) = [bitcoin_article] \<and>
   article_id bitcoin_article = 1"
proof -
  let ?eth = "\<lparr>article_id = 1, Title = ''Ethereum upgrade goes live'',
           Description = ''Developers confirm'', Date = ''March 07, 2024'',
           Source = ''www.newsbtc.com'', Source_URL = ''https://www.newsbtc.com/news/'',
           Category = ''ETH'', Sentiment = ''positive''\<rparr>"
  let ?store = "\<lparr>documents = [bitcoin_article],
      calls = [Find_id_in [1], Insert_many [bitcoin_article], Find_one_sort_id_desc]\<rparr>"
  have none: "new_articles [?eth] ?store = []"
    by (simp add: new_articles_eq bitcoin_article_def)
  have "documents (fst (snd (main (page_env second_day_page) ?store))) = [bitcoin_article]"
    by (simp add: main_def run_def second_day_sites save_to_mongo_none [OF none])
  then show ?thesis
    by (simp add: first_day_main second_day_sites) (simp add: bitcoin_article_def)
qed

end
